theory Spec2Isabelle
  imports Main
begin

section \<open>JavaScript values, errors and the process state\<close>

text \<open>
  The program is an Express application (\<open>src/index.js\<close>) that wires Passport's OAuth2
  strategy to three handlers of its own: the verify function
  \<open>handleSuccessfulOAuthFlow\<close>, the session hooks \<open>serializeUser\<close> and
  \<open>deserializeUser\<close>, and the route functions. The handlers are embedded below; the
  values they receive from their collaborators (the HTTP response of \<open>axios.get\<close>, the
  arguments of the refresh callback) are inputs of the model.
\<close>

datatype jsvalue =
    JUndefined
  | JNull
  | JBool bool
  | JNum int
  | JStr string
  | JArr "jsvalue list"
  | JObj "(string \<times> jsvalue) list"

datatype js_error = TypeError string | ReferenceError string

text \<open>How a function call ends: it returns, or an exception leaves it (for an
  \<open>async\<close> function: its promise is rejected).\<close>

datatype 'a completion = Returned 'a | Threw js_error

text \<open>An invocation \<open>callback(err, value)\<close> of a Node-style callback.\<close>

datatype callback_call = Callback jsvalue jsvalue

text \<open>What the process sends out: \<open>axios.get(url, {headers})\<close> and
  \<open>refresh.requestNewAccessToken(name, refreshToken, cb)\<close>.\<close>

datatype outgoing =
    AxiosGet string "(string \<times> string) list"
  | RequestNewAccessToken string jsvalue

text \<open>The module-level variable \<open>stored_refresh_token\<close> (there is one per process),
  the lines written by \<open>console.log\<close> (each the list of its arguments) and the
  outgoing calls, oldest first.\<close>

record world =
  stored_refresh_token :: jsvalue
  console :: "jsvalue list list"
  outbox :: "outgoing list"

definition initial_world :: world where
  "initial_world = \<lparr>stored_refresh_token = JNull, console = [], outbox = []\<rparr>"

definition console_log :: "jsvalue list \<Rightarrow> world \<Rightarrow> world" where
  "console_log args w = w\<lparr>console := console w @ [args]\<rparr>"

definition send_out :: "outgoing \<Rightarrow> world \<Rightarrow> world" where
  "send_out c w = w\<lparr>outbox := outbox w @ [c]\<rparr>"

text \<open>Property read \<open>v.k\<close>: a TypeError on \<open>null\<close> and \<open>undefined\<close>, the own
  property of an object, \<open>undefined\<close> where there is none.\<close>

fun get_prop :: "jsvalue \<Rightarrow> string \<Rightarrow> js_error + jsvalue" where
  "get_prop JUndefined k = Inl (TypeError k)"
| "get_prop JNull k = Inl (TypeError k)"
| "get_prop (JObj kvs) k = (case map_of kvs k of None \<Rightarrow> Inr JUndefined | Some v \<Rightarrow> Inr v)"
| "get_prop v k = Inr JUndefined"

definition nl :: string where
  "nl = [CHR 0x0A]"

definition apostrophe :: string where
  "apostrophe = [CHR 0x27]"

section \<open>Configuration\<close>

definition defaultPort :: nat where
  "defaultPort = 3000"

definition beginOAuthFlowWithPassportURL :: string where
  "beginOAuthFlowWithPassportURL = ''/login''"

definition callbackURL :: string where
  "callbackURL = ''/callback''"

definition memberfulURL :: string where
  "memberfulURL = ''INSERT_YOUR_MEMBERFUL_URL_HERE''"

definition clientId :: string where
  "clientId = ''INSERT_YOUR_OAUTH_IDENTIFIER_HERE''"

definition clientSecret :: string where
  "clientSecret = ''INSERT_YOUR_OAUTH_SECRET_HERE''"

text \<open>The name under which the strategy is registered and used
  (\<open>passport.authenticate('oauth2')\<close>, \<open>strategy.name\<close>).\<close>

definition strategy_name :: string where
  "strategy_name = ''oauth2''"

section \<open>Session hooks\<close>

text \<open>
  \<open>passport.serializeUser(function (user, callback) {...})\<close>: logs the user, builds
  \<open>myUser\<close> from three property reads and then calls \<open>callback(null, user)\<close>.
\<close>

definition serializeUser :: "jsvalue \<Rightarrow> world \<Rightarrow> world \<times> callback_call completion" where
  "serializeUser user w =
     (let w1 = console_log
           [JStr (''Storing a subset of the user data into the session cookie...'' @ nl @
                  ''    Here'' @ apostrophe @ ''s the full user we received:''), user] w
      in case get_prop user ''id'' of
           Inl e \<Rightarrow> (w1, Threw e)
         | Inr uid \<Rightarrow>
        (case get_prop user ''email'' of
           Inl e \<Rightarrow> (w1, Threw e)
         | Inr email \<Rightarrow>
        (case get_prop user ''fullName'' of
           Inl e \<Rightarrow> (w1, Threw e)
         | Inr fullName \<Rightarrow>
           (let myUser = JObj [(''id'', uid), (''email'', email), (''fullName'', fullName)]
            in (w1, Returned (Callback JNull user))))))"

text \<open>\<open>passport.deserializeUser(function (user, callback) { callback(null, user); })\<close>\<close>

definition deserializeUser :: "jsvalue \<Rightarrow> world \<Rightarrow> world \<times> callback_call completion" where
  "deserializeUser user w = (w, Returned (Callback JNull user))"

section \<open>The verify function \<open>handleSuccessfulOAuthFlow\<close>\<close>

text \<open>The GraphQL document of the template literal \<open>memberQuery\<close>, line by line.\<close>

definition memberQuery :: string where
  "memberQuery = concat
     [nl,
      ''      {'', nl,
      ''        currentMember {'', nl,
      ''          id'', nl,
      ''          email'', nl,
      ''          fullName'', nl,
      ''          subscriptions {'', nl,
      ''            active'', nl,
      ''            expiresAt'', nl,
      ''            plan {'', nl,
      ''              id'', nl,
      ''              name'', nl,
      ''            }'', nl,
      ''          }'', nl,
      ''        }'', nl,
      ''      }'', nl,
      ''      '']"

text \<open>The response object of a fulfilled \<open>axios.get\<close>; a rejected one carries the
  error object that the \<open>catch\<close> clause binds.\<close>

record axios_response =
  status :: nat
  data :: jsvalue

type_synonym axios_result = "jsvalue + axios_response"

text \<open>
  The body up to the \<open>await\<close>: the first \<open>console.log\<close>, the assignment to the
  module-level \<open>stored_refresh_token\<close>, and the GET that is awaited.
\<close>

definition handleSuccessfulOAuthFlow_begin :: "string \<Rightarrow> string \<Rightarrow> jsvalue \<Rightarrow> world \<Rightarrow> world" where
  "handleSuccessfulOAuthFlow_begin access_token refresh_token profile w =
     (let w1 = console_log
            [JStr (''Received access token: '' @ access_token @ nl @
                   ''      Received refresh token: '' @ refresh_token @ nl @ ''      '')] w;
          w2 = w1\<lparr>stored_refresh_token := JStr refresh_token\<rparr>
      in send_out
           (AxiosGet (memberfulURL @ ''/api/graphql/member?query='' @ memberQuery)
                     [(''Authorization'', ''Bearer '' @ access_token)]) w2)"

text \<open>
  The body after the \<open>await\<close>. Fulfilled: the response is logged, the refresh is
  requested with the current value of \<open>stored_refresh_token\<close>, and the function returns
  \<open>callback(null, memberDataResponse.data)\<close>. Rejected: the \<open>catch\<close> clause logs the
  error and evaluates \<open>res.send(error.data)\<close>; no binding of \<open>res\<close> is in scope of the
  function, so a ReferenceError leaves it and \<open>callback\<close> is not called.
\<close>

definition handleSuccessfulOAuthFlow_resume :: "axios_result \<Rightarrow> world \<Rightarrow> world \<times> callback_call completion" where
  "handleSuccessfulOAuthFlow_resume r w =
     (case r of
        Inr memberDataResponse \<Rightarrow>
          (let w1 = console_log [JStr ''Received a response from the API'', data memberDataResponse] w;
               w2 = send_out (RequestNewAccessToken strategy_name (stored_refresh_token w1)) w1
           in (w2, Returned (Callback JNull (data memberDataResponse))))
      | Inl error \<Rightarrow> (console_log [error] w, Threw (ReferenceError ''res'')))"

text \<open>The callback given to \<open>refresh.requestNewAccessToken\<close>, applied to its
  arguments \<open>(err, accessToken, refreshToken)\<close>.\<close>

definition refresh_callback :: "jsvalue \<times> jsvalue \<times> jsvalue \<Rightarrow> world \<Rightarrow> world" where
  "refresh_callback args w =
     (case args of (err, accessToken, refreshToken) \<Rightarrow>
        if err \<noteq> JNull then console_log [JStr ''Error refreshing token: '', err] w
        else console_log
               [JStr (''We'' @ apostrophe @ ''ve refreshed the token! New access token: ''),
                accessToken, JStr ''Refresh token stays the same: '', refreshToken] w)"

text \<open>
  One whole run of the verify function for one sign-in, with nothing else of the process
  running in between: the two parts of the body, then (when the refresh was requested)
  the refresh callback on the arguments it is given.
\<close>

definition handleSuccessfulOAuthFlow ::
  "string \<Rightarrow> string \<Rightarrow> jsvalue \<Rightarrow> axios_result \<Rightarrow> jsvalue \<times> jsvalue \<times> jsvalue \<Rightarrow> world
     \<Rightarrow> world \<times> callback_call completion" where
  "handleSuccessfulOAuthFlow access_token refresh_token profile r refreshed w =
     (case handleSuccessfulOAuthFlow_resume r
             (handleSuccessfulOAuthFlow_begin access_token refresh_token profile w) of
        (w1, Returned c) \<Rightarrow> (refresh_callback refreshed w1, Returned c)
      | (w1, Threw e) \<Rightarrow> (w1, Threw e))"

text \<open>
  The JSON body of a successful token-endpoint response. The strategy calls the verify
  function, which has four parameters, as \<open>verify(accessToken, refreshToken, profile, cb)\<close>.
\<close>

record token_response =
  access_token :: string
  refresh_token :: string
  expires_in :: int

definition exchange_succeeded ::
  "token_response \<Rightarrow> jsvalue \<Rightarrow> axios_result \<Rightarrow> jsvalue \<times> jsvalue \<times> jsvalue \<Rightarrow> world
     \<Rightarrow> world \<times> callback_call completion" where
  "exchange_succeeded t profile r refreshed w =
     handleSuccessfulOAuthFlow (access_token t) (refresh_token t) profile r refreshed w"

subsection \<open>The second source file: \<open>refreshTheToken\<close>\<close>

text \<open>
  In the second source file the refresh is requested by \<open>refreshTheToken\<close>, called from
  the callback route after the page is sent; it reads the same module-level variable.
\<close>

definition refreshTheToken :: "world \<Rightarrow> world" where
  "refreshTheToken w = send_out (RequestNewAccessToken strategy_name (stored_refresh_token w)) w"

definition refreshTheToken_callback :: "jsvalue \<times> jsvalue \<times> jsvalue \<Rightarrow> world \<Rightarrow> world" where
  "refreshTheToken_callback args w =
     (case args of (err, accessToken, refreshToken) \<Rightarrow>
        if err \<noteq> JNull then console_log [JStr ''Error refreshing token: '', err] w
        else console_log [JStr ''refreshToken: '', refreshToken]
               (console_log [JStr ''accessToken: '', accessToken]
                  (console_log [JStr (''We'' @ apostrophe @ ''ve refreshed the token!'')] w)))"

section \<open>The field set of the specification\<close>

text \<open>
  The field selection the specification names: id, email, fullName,
  subscriptions[active, expiresAt, plan[id, name]], as a tree, and its rendering as the
  token sequence of a GraphQL selection.
\<close>

datatype field = Field string "field list"

fun field_name :: "field \<Rightarrow> string" where
  "field_name (Field n fs) = n"

definition spec_field_set :: "field list" where
  "spec_field_set =
     [Field ''id'' [], Field ''email'' [], Field ''fullName'' [],
      Field ''subscriptions''
        [Field ''active'' [], Field ''expiresAt'' [],
         Field ''plan'' [Field ''id'' [], Field ''name'' []]]]"

fun selection_tokens :: "field \<Rightarrow> string list" where
  "selection_tokens (Field n fs) =
     (if fs = [] then [n] else n # ''{'' # concat (map selection_tokens fs) @ [''}''])"

definition document_tokens :: "field list \<Rightarrow> string list" where
  "document_tokens fs = ''{'' # concat (map selection_tokens fs) @ [''}'']"

text \<open>The words of a string: its maximal runs of characters other than space and
  newline (\<open>acc\<close> is the current run, reversed).\<close>

fun split_ws :: "string \<Rightarrow> string \<Rightarrow> string list" where
  "split_ws acc [] = (if acc = [] then [] else [rev acc])"
| "split_ws acc (c # cs) =
     (if c = CHR '' '' \<or> c = CHR 0x0A
      then (if acc = [] then split_ws [] cs else rev acc # split_ws [] cs)
      else split_ws (c # acc) cs)"

definition words_of :: "string \<Rightarrow> string list" where
  "words_of s = split_ws [] s"

text \<open>The value of the query parameter \<open>query\<close> in a URL of the form
  \<open>base?query=value\<close>: what follows the first occurrence of \<open>?query=\<close>.\<close>

fun after_prefix :: "string \<Rightarrow> string \<Rightarrow> string option" where
  "after_prefix [] s = Some s"
| "after_prefix (p # ps) [] = None"
| "after_prefix (p # ps) (c # cs) = (if p = c then after_prefix ps cs else None)"

fun query_param :: "string \<Rightarrow> string option" where
  "query_param [] = None"
| "query_param (c # cs) =
     (case after_prefix ''?query='' (c # cs) of
        Some v \<Rightarrow> Some v
      | None \<Rightarrow> query_param cs)"

text \<open>The keys of the member object of a response body \<open>{currentMember: {...}}\<close>.\<close>

definition present_fields :: "jsvalue \<Rightarrow> string list" where
  "present_fields body =
     (case get_prop body ''currentMember'' of
        Inr (JObj kvs) \<Rightarrow> map fst kvs
      | _ \<Rightarrow> [])"

definition requested_fields :: "string list" where
  "requested_fields = map field_name spec_field_set"

section \<open>Reading a run\<close>

text \<open>The resource requests among the outgoing calls, and the user that a run of the
  verify function hands to its callback (none when the callback is not called).\<close>

fun is_resource_request :: "outgoing \<Rightarrow> bool" where
  "is_resource_request (AxiosGet url headers) = True"
| "is_resource_request (RequestNewAccessToken name token) = False"

fun reported_user :: "callback_call completion \<Rightarrow> jsvalue option" where
  "reported_user (Returned (Callback err user)) = Some user"
| "reported_user (Threw e) = None"

section \<open>Concrete inputs\<close>

text \<open>A response body of the shape shown in the comment of the verify function, a body
  that lacks two of the requested fields, and the error object of a rejected refresh.\<close>

definition example_body :: jsvalue where
  "example_body =
     JObj [(''currentMember'',
       JObj [(''id'', JStr ''2406643''),
             (''email'', JStr ''member@example.com''),
             (''fullName'', JStr ''Zam''),
             (''subscriptions'',
                JArr [JObj [(''plan'', JObj [(''id'', JStr ''65673''),
                                             (''name'', JStr ''One time success'')]),
                            (''active'', JBool True),
                            (''expiresAt'', JNull)]])])]"

definition partial_body :: jsvalue where
  "partial_body =
     JObj [(''currentMember'',
       JObj [(''id'', JStr ''2406643''), (''email'', JStr ''member@example.com'')])]"

definition invalid_grant :: jsvalue where
  "invalid_grant = JObj [(''statusCode'', JNum 401), (''data'', JStr ''invalid_grant'')]"

definition ok_response :: "jsvalue \<Rightarrow> axios_response" where
  "ok_response body = \<lparr>status = 200, data = body\<rparr>"

section \<open>Basic facts about the handlers\<close>

lemma get_prop_defined:
  "v \<noteq> JNull \<Longrightarrow> v \<noteq> JUndefined \<Longrightarrow> \<exists>x. get_prop v k = Inr x"
  by (cases v) (auto split: option.splits)

lemma snd_serializeUser:
  assumes "user \<noteq> JNull" "user \<noteq> JUndefined"
  shows "snd (serializeUser user w) = Returned (Callback JNull user)"
proof -
  obtain a where a: "get_prop user ''id'' = Inr a"
    using get_prop_defined[OF assms] by blast
  obtain b where b: "get_prop user ''email'' = Inr b"
    using get_prop_defined[OF assms] by blast
  obtain c where c: "get_prop user ''fullName'' = Inr c"
    using get_prop_defined[OF assms] by blast
  show ?thesis
    by (simp add: serializeUser_def a b c Let_def)
qed

lemma begin_stored [simp]:
  "stored_refresh_token (handleSuccessfulOAuthFlow_begin a r p w) = JStr r"
  by (simp add: handleSuccessfulOAuthFlow_begin_def Let_def console_log_def send_out_def)

lemma begin_outbox [simp]:
  "outbox (handleSuccessfulOAuthFlow_begin a r p w) =
     outbox w @ [AxiosGet (memberfulURL @ ''/api/graphql/member?query='' @ memberQuery)
                          [(''Authorization'', ''Bearer '' @ a)]]"
  by (simp add: handleSuccessfulOAuthFlow_begin_def Let_def console_log_def send_out_def)

lemma begin_console [simp]:
  "console (handleSuccessfulOAuthFlow_begin a r p w) =
     console w @ [[JStr (''Received access token: '' @ a @ nl @
                         ''      Received refresh token: '' @ r @ nl @ ''      '')]]"
  by (simp add: handleSuccessfulOAuthFlow_begin_def Let_def console_log_def send_out_def)

lemma refresh_callback_stored [simp]:
  "stored_refresh_token (refresh_callback args w) = stored_refresh_token w"
  by (cases args) (simp add: refresh_callback_def console_log_def)

lemma refresh_callback_outbox [simp]:
  "outbox (refresh_callback args w) = outbox w"
  by (cases args) (simp add: refresh_callback_def console_log_def)

text \<open>On an error the refresh callback of either variant writes one console line.\<close>

lemma refresh_callback_error:
  "err \<noteq> JNull \<Longrightarrow>
     refresh_callback (err, a, r) w = w\<lparr>console := console w @ [[JStr ''Error refreshing token: '', err]]\<rparr>"
  by (simp add: refresh_callback_def console_log_def)

lemma refreshTheToken_callback_error:
  "err \<noteq> JNull \<Longrightarrow>
     refreshTheToken_callback (err, a, r) w = w\<lparr>console := console w @ [[JStr ''Error refreshing token: '', err]]\<rparr>"
  by (simp add: refreshTheToken_callback_def console_log_def)

text \<open>The two ways a run of the verify function ends.\<close>

lemma flow_fulfilled:
  "handleSuccessfulOAuthFlow atok rtok profile (Inr resp) refreshed w =
     (refresh_callback refreshed
        (send_out (RequestNewAccessToken strategy_name (JStr rtok))
          (console_log [JStr ''Received a response from the API'', data resp]
            (handleSuccessfulOAuthFlow_begin atok rtok profile w))),
      Returned (Callback JNull (data resp)))"
  by (simp add: handleSuccessfulOAuthFlow_def handleSuccessfulOAuthFlow_resume_def
      Let_def console_log_def send_out_def)

lemma flow_rejected:
  "handleSuccessfulOAuthFlow atok rtok profile (Inl error) refreshed w =
     (console_log [error] (handleSuccessfulOAuthFlow_begin atok rtok profile w),
      Threw (ReferenceError ''res''))"
  by (simp add: handleSuccessfulOAuthFlow_def handleSuccessfulOAuthFlow_resume_def)

text \<open>The second part of the body and the refresh callbacks, written out.\<close>

lemma resume_fulfilled:
  "handleSuccessfulOAuthFlow_resume (Inr resp) w =
     (w\<lparr>console := console w @ [[JStr ''Received a response from the API'', data resp]],
        outbox := outbox w @ [RequestNewAccessToken strategy_name (stored_refresh_token w)]\<rparr>,
      Returned (Callback JNull (data resp)))"
  by (simp add: handleSuccessfulOAuthFlow_resume_def Let_def console_log_def send_out_def)

lemma resume_rejected:
  "handleSuccessfulOAuthFlow_resume (Inl error) w =
     (w\<lparr>console := console w @ [[error]]\<rparr>, Threw (ReferenceError ''res''))"
  by (simp add: handleSuccessfulOAuthFlow_resume_def console_log_def)

lemma refresh_callback_success:
  "refresh_callback (JNull, a, r) w =
     w\<lparr>console := console w @
        [[JStr (''We'' @ apostrophe @ ''ve refreshed the token! New access token: ''),
          a, JStr ''Refresh token stays the same: '', r]]\<rparr>"
  by (simp add: refresh_callback_def console_log_def)

lemma refreshTheToken_callback_success:
  "refreshTheToken_callback (JNull, a, r) w =
     w\<lparr>console := console w @
        [[JStr (''We'' @ apostrophe @ ''ve refreshed the token!'')],
         [JStr ''accessToken: '', a],
         [JStr ''refreshToken: '', r]]\<rparr>"
  by (simp add: refreshTheToken_callback_def console_log_def)

lemma refreshTheToken_callback_stored [simp]:
  "stored_refresh_token (refreshTheToken_callback args w) = stored_refresh_token w"
  by (cases args) (simp add: refreshTheToken_callback_def console_log_def)

lemma run_fulfilled_world:
  "fst (handleSuccessfulOAuthFlow atok rtok profile (Inr resp) refreshed w) =
     refresh_callback refreshed
       (w\<lparr>stored_refresh_token := JStr rtok,
          console := console w @
            [[JStr (''Received access token: '' @ atok @ nl @
                    ''      Received refresh token: '' @ rtok @ nl @ ''      '')],
             [JStr ''Received a response from the API'', data resp]],
          outbox := outbox w @
            [AxiosGet (memberfulURL @ ''/api/graphql/member?query='' @ memberQuery)
                      [(''Authorization'', ''Bearer '' @ atok)],
             RequestNewAccessToken strategy_name (JStr rtok)]\<rparr>)"
  by (simp add: flow_fulfilled handleSuccessfulOAuthFlow_begin_def Let_def console_log_def
      send_out_def)

section \<open>Token material kept by the exchange\<close>

text \<open>
  C2, as stated: a successful exchange yields a token pair whose expiry is the issuance
  time plus \<open>expires_in\<close>. Two token responses that differ in \<open>expires_in\<close> alone (900
  and 1800 seconds) leave the process in one and the same state, written out below, with
  the same result: the tokens are in it, an expiry is not.
\<close>

theorem expires_in_counterexample:
  "exchange_succeeded \<lparr>access_token = ''AT1'', refresh_token = ''RT1'', expires_in = 900\<rparr>
      (JObj []) (Inr (ok_response example_body)) (JNull, JStr ''AT2'', JStr ''RT1'') initial_world
   = (\<lparr>stored_refresh_token = JStr ''RT1'',
       console =
         [[JStr (''Received access token: AT1'' @ nl @
                 ''      Received refresh token: RT1'' @ nl @ ''      '')],
          [JStr ''Received a response from the API'', example_body],
          [JStr (''We'' @ apostrophe @ ''ve refreshed the token! New access token: ''),
           JStr ''AT2'', JStr ''Refresh token stays the same: '', JStr ''RT1'']],
       outbox =
         [AxiosGet (memberfulURL @ ''/api/graphql/member?query='' @ memberQuery)
                   [(''Authorization'', ''Bearer AT1'')],
          RequestNewAccessToken ''oauth2'' (JStr ''RT1'')]\<rparr>,
      Returned (Callback JNull example_body))
   \<and> exchange_succeeded \<lparr>access_token = ''AT1'', refresh_token = ''RT1'', expires_in = 1800\<rparr>
      (JObj []) (Inr (ok_response example_body)) (JNull, JStr ''AT2'', JStr ''RT1'') initial_world
   = (\<lparr>stored_refresh_token = JStr ''RT1'',
       console =
         [[JStr (''Received access token: AT1'' @ nl @
                 ''      Received refresh token: RT1'' @ nl @ ''      '')],
          [JStr ''Received a response from the API'', example_body],
          [JStr (''We'' @ apostrophe @ ''ve refreshed the token! New access token: ''),
           JStr ''AT2'', JStr ''Refresh token stays the same: '', JStr ''RT1'']],
       outbox =
         [AxiosGet (memberfulURL @ ''/api/graphql/member?query='' @ memberQuery)
                   [(''Authorization'', ''Bearer AT1'')],
          RequestNewAccessToken ''oauth2'' (JStr ''RT1'')]\<rparr>,
      Returned (Callback JNull example_body))"
  by (simp add: exchange_succeeded_def flow_fulfilled refresh_callback_success
      handleSuccessfulOAuthFlow_begin_def Let_def console_log_def send_out_def
      ok_response_def initial_world_def strategy_name_def)

text \<open>
  C2, amended: for every successful exchange the verify function, before its \<open>await\<close>,
  sends the profile request with the access token of the response as bearer token and
  stores the refresh token of the response in \<open>stored_refresh_token\<close>; after the
  \<open>await\<close>, the profile request fulfilled, it requests the refresh with the value the
  variable then holds and leaves the variable alone. In a run with no other sign-in in between, that value is the
  refresh token of the response, which is also what is stored at the end. No expiry is
  recorded: state and result of the run are those written out in the fifth conjunct,
  whatever \<open>expires_in\<close> is.
\<close>

theorem exchange_keeps_tokens_only:
  "outbox (handleSuccessfulOAuthFlow_begin (access_token t) (refresh_token t) profile w) =
     outbox w @ [AxiosGet (memberfulURL @ ''/api/graphql/member?query='' @ memberQuery)
                          [(''Authorization'', ''Bearer '' @ access_token t)]]
   \<and> stored_refresh_token
        (handleSuccessfulOAuthFlow_begin (access_token t) (refresh_token t) profile w)
       = JStr (refresh_token t)
   \<and> outbox (fst (handleSuccessfulOAuthFlow_resume (Inr resp) w')) =
       outbox w' @ [RequestNewAccessToken strategy_name (stored_refresh_token w')]
   \<and> stored_refresh_token (fst (handleSuccessfulOAuthFlow_resume (Inr resp) w'))
       = stored_refresh_token w'
   \<and> exchange_succeeded t profile (Inr resp) refreshed w =
       (refresh_callback refreshed
          (w\<lparr>stored_refresh_token := JStr (refresh_token t),
             console := console w @
               [[JStr (''Received access token: '' @ access_token t @ nl @
                       ''      Received refresh token: '' @ refresh_token t @ nl @ ''      '')],
                [JStr ''Received a response from the API'', data resp]],
             outbox := outbox w @
               [AxiosGet (memberfulURL @ ''/api/graphql/member?query='' @ memberQuery)
                         [(''Authorization'', ''Bearer '' @ access_token t)],
                RequestNewAccessToken strategy_name (JStr (refresh_token t))]\<rparr>),
        Returned (Callback JNull (data resp)))
   \<and> stored_refresh_token (fst (exchange_succeeded t profile (Inr resp) refreshed w))
       = JStr (refresh_token t)
   \<and> exchange_succeeded (t\<lparr>expires_in := e\<rparr>) profile r refreshed w
       = exchange_succeeded t profile r refreshed w"
proof (intro conjI)
  show "exchange_succeeded t profile (Inr resp) refreshed w =
       (refresh_callback refreshed
          (w\<lparr>stored_refresh_token := JStr (refresh_token t),
             console := console w @
               [[JStr (''Received access token: '' @ access_token t @ nl @
                       ''      Received refresh token: '' @ refresh_token t @ nl @ ''      '')],
                [JStr ''Received a response from the API'', data resp]],
             outbox := outbox w @
               [AxiosGet (memberfulURL @ ''/api/graphql/member?query='' @ memberQuery)
                         [(''Authorization'', ''Bearer '' @ access_token t)],
                RequestNewAccessToken strategy_name (JStr (refresh_token t))]\<rparr>),
        Returned (Callback JNull (data resp)))"
    using run_fulfilled_world[of "access_token t" "refresh_token t" profile resp refreshed w]
    by (simp add: exchange_succeeded_def flow_fulfilled prod_eq_iff)
qed (simp_all add: exchange_succeeded_def resume_fulfilled run_fulfilled_world)

section \<open>The stored refresh token after a refresh\<close>

text \<open>
  C3, as stated: after a successful refresh the stored refresh token is the one of the
  response. With \<open>RT1\<close> received at the exchange and a refresh that answers with the
  rotated token \<open>RT2\<close>, the variable still holds \<open>RT1\<close>.
\<close>

theorem rotated_refresh_token_counterexample:
  "stored_refresh_token (fst (handleSuccessfulOAuthFlow ''AT1'' ''RT1'' (JObj [])
      (Inr (ok_response example_body)) (JNull, JStr ''AT2'', JStr ''RT2'') initial_world))
     = JStr ''RT1''
   \<and> stored_refresh_token (fst (handleSuccessfulOAuthFlow ''AT1'' ''RT1'' (JObj [])
      (Inr (ok_response example_body)) (JNull, JStr ''AT2'', JStr ''RT2'') initial_world))
     \<noteq> JStr ''RT2''"
  by (simp add: flow_fulfilled send_out_def console_log_def)

text \<open>
  C3, amended: on success the refresh callback (of either source file) changes nothing
  but the console, to which it writes the access token and the refresh token of the
  response; on success or error it leaves \<open>stored_refresh_token\<close> as it was, rotated
  token or not. After a sign-in followed, with no other sign-in in between, by a
  successful refresh the variable holds the refresh token received at the exchange.
\<close>

theorem refresh_leaves_stored_token:
  "refresh_callback (JNull, accessToken, refreshToken) w =
     w\<lparr>console := console w @
        [[JStr (''We'' @ apostrophe @ ''ve refreshed the token! New access token: ''),
          accessToken, JStr ''Refresh token stays the same: '', refreshToken]]\<rparr>
   \<and> refreshTheToken_callback (JNull, accessToken, refreshToken) w =
     w\<lparr>console := console w @
        [[JStr (''We'' @ apostrophe @ ''ve refreshed the token!'')],
         [JStr ''accessToken: '', accessToken],
         [JStr ''refreshToken: '', refreshToken]]\<rparr>
   \<and> stored_refresh_token (refresh_callback (err, accessToken, refreshToken) w)
       = stored_refresh_token w
   \<and> stored_refresh_token (refreshTheToken_callback (err, accessToken, refreshToken) w)
       = stored_refresh_token w
   \<and> stored_refresh_token (fst (handleSuccessfulOAuthFlow atok rtok profile (Inr resp)
        (JNull, accessToken, refreshToken) w)) = JStr rtok"
  by (simp add: refresh_callback_success refreshTheToken_callback_success run_fulfilled_world)

section \<open>Errors of the refresh\<close>

text \<open>
  C4, as stated: every error of the flow ends in a redirect or a rendered error message.
  A refresh rejected with \<open>invalid_grant\<close> appears on the console only: the verify
  function still calls \<open>callback(null, body)\<close>, so no error is reported to Passport.
\<close>

theorem refresh_error_console_only_counterexample:
  "snd (handleSuccessfulOAuthFlow ''AT1'' ''RT1'' (JObj []) (Inr (ok_response example_body))
          (invalid_grant, JUndefined, JUndefined) initial_world)
     = Returned (Callback JNull example_body)
   \<and> console (fst (handleSuccessfulOAuthFlow ''AT1'' ''RT1'' (JObj []) (Inr (ok_response example_body))
          (invalid_grant, JUndefined, JUndefined) initial_world))
     = [[JStr (''Received access token: AT1'' @ nl @
               ''      Received refresh token: RT1'' @ nl @ ''      '')],
        [JStr ''Received a response from the API'', example_body],
        [JStr ''Error refreshing token: '', invalid_grant]]"
  by (simp add: flow_fulfilled refresh_callback_def console_log_def send_out_def
      ok_response_def initial_world_def invalid_grant_def)

text \<open>
  C4, amended: an error of the refresh is written to the console (by the refresh callback
  of either source file) and is not reported to Passport: the verify function calls its
  callback with \<open>null\<close> as error and the response body as user, exactly as it does when
  the refresh succeeds; it does so in the second part of its body whatever the state of
  the process, so the verify function does not hang on the refresh. (Errors of the state
  check and of the code exchange arise inside the OAuth2 library; the path of a failed
  profile request, \<open>flow_rejected\<close>, is not part of this statement.)
\<close>

theorem refresh_error_logged_and_request_completes:
  assumes "err \<noteq> JNull"
  shows "console (refresh_callback (err, a, r) w')
           = console w' @ [[JStr ''Error refreshing token: '', err]]
       \<and> console (refreshTheToken_callback (err, a, r) w')
           = console w' @ [[JStr ''Error refreshing token: '', err]]
       \<and> snd (handleSuccessfulOAuthFlow_resume (Inr resp) w')
           = Returned (Callback JNull (data resp))
       \<and> console (fst (handleSuccessfulOAuthFlow atok rtok profile (Inr resp) (err, a, r) w))
           = console w @
             [[JStr (''Received access token: '' @ atok @ nl @
                     ''      Received refresh token: '' @ rtok @ nl @ ''      '')],
              [JStr ''Received a response from the API'', data resp],
              [JStr ''Error refreshing token: '', err]]
       \<and> snd (handleSuccessfulOAuthFlow atok rtok profile (Inr resp) (err, a, r) w)
           = Returned (Callback JNull (data resp))
       \<and> snd (handleSuccessfulOAuthFlow atok rtok profile (Inr resp) (err, a, r) w)
           = snd (handleSuccessfulOAuthFlow atok rtok profile (Inr resp) (JNull, a', r') w)"
  using assms
  by (simp add: refresh_callback_error refreshTheToken_callback_error resume_fulfilled
      flow_fulfilled send_out_def console_log_def)

theorem refresh_error_logged_and_request_completes_witness:
  "invalid_grant \<noteq> JNull
   \<and> console (refresh_callback (invalid_grant, JUndefined, JUndefined) initial_world)
       = console initial_world @ [[JStr ''Error refreshing token: '', invalid_grant]]
   \<and> console (refreshTheToken_callback (invalid_grant, JUndefined, JUndefined) initial_world)
       = console initial_world @ [[JStr ''Error refreshing token: '', invalid_grant]]
   \<and> snd (handleSuccessfulOAuthFlow_resume (Inr (ok_response example_body)) initial_world)
       = Returned (Callback JNull (data (ok_response example_body)))
   \<and> console (fst (handleSuccessfulOAuthFlow ''AT1'' ''RT1'' (JObj []) (Inr (ok_response example_body))
          (invalid_grant, JUndefined, JUndefined) initial_world))
     = console initial_world @
       [[JStr (''Received access token: '' @ ''AT1'' @ nl @
               ''      Received refresh token: '' @ ''RT1'' @ nl @ ''      '')],
        [JStr ''Received a response from the API'', data (ok_response example_body)],
        [JStr ''Error refreshing token: '', invalid_grant]]
   \<and> snd (handleSuccessfulOAuthFlow ''AT1'' ''RT1'' (JObj []) (Inr (ok_response example_body))
          (invalid_grant, JUndefined, JUndefined) initial_world)
     = Returned (Callback JNull (data (ok_response example_body)))
   \<and> snd (handleSuccessfulOAuthFlow ''AT1'' ''RT1'' (JObj []) (Inr (ok_response example_body))
          (invalid_grant, JUndefined, JUndefined) initial_world)
     = snd (handleSuccessfulOAuthFlow ''AT1'' ''RT1'' (JObj []) (Inr (ok_response example_body))
          (JNull, JStr ''AT2'', JStr ''RT1'') initial_world)"
proof -
  have h: "invalid_grant \<noteq> JNull"
    by (simp add: invalid_grant_def)
  show ?thesis
    using h refresh_error_logged_and_request_completes[OF h, of JUndefined JUndefined
        initial_world "ok_response example_body" "''AT1''" "''RT1''" "JObj []" initial_world
        "JStr ''AT2''" "JStr ''RT1''"]
    by (rule conjI)
qed

text \<open>
  C5, as stated: a failed refresh is terminal and resets the session. A refresh rejected
  with \<open>invalid_grant\<close> changes neither the result of the sign-in nor the stored token
  nor the requests sent, compared with a refresh that succeeds.
\<close>

theorem failed_refresh_no_reset_counterexample:
  "snd (handleSuccessfulOAuthFlow ''AT1'' ''RT1'' (JObj []) (Inr (ok_response example_body))
          (invalid_grant, JUndefined, JUndefined) initial_world)
     = snd (handleSuccessfulOAuthFlow ''AT1'' ''RT1'' (JObj []) (Inr (ok_response example_body))
          (JNull, JStr ''AT2'', JStr ''RT1'') initial_world)
   \<and> stored_refresh_token (fst (handleSuccessfulOAuthFlow ''AT1'' ''RT1'' (JObj [])
          (Inr (ok_response example_body)) (invalid_grant, JUndefined, JUndefined) initial_world))
     = JStr ''RT1''
   \<and> outbox (fst (handleSuccessfulOAuthFlow ''AT1'' ''RT1'' (JObj [])
          (Inr (ok_response example_body)) (invalid_grant, JUndefined, JUndefined) initial_world))
     = outbox (fst (handleSuccessfulOAuthFlow ''AT1'' ''RT1'' (JObj [])
          (Inr (ok_response example_body)) (JNull, JStr ''AT2'', JStr ''RT1'') initial_world))"
  by (simp add: flow_fulfilled send_out_def console_log_def)

text \<open>
  C5, amended: a failed refresh hands its error to the callback, which (in either source
  file) writes one console line and does nothing else: no exception, no change of the
  stored token, no further request. Nothing is reset: the run still ends with
  \<open>callback(null, body)\<close>, the stored token is the one of the exchange, and the only
  requests sent are the profile request and the refresh request.
\<close>

theorem failed_refresh_only_logs:
  assumes "err \<noteq> JNull"
  shows "refresh_callback (err, a, r) w
           = w\<lparr>console := console w @ [[JStr ''Error refreshing token: '', err]]\<rparr>
       \<and> refreshTheToken_callback (err, a, r) w
           = w\<lparr>console := console w @ [[JStr ''Error refreshing token: '', err]]\<rparr>
       \<and> stored_refresh_token (fst (handleSuccessfulOAuthFlow atok rtok profile (Inr resp) (err, a, r) w))
           = JStr rtok
       \<and> outbox (fst (handleSuccessfulOAuthFlow atok rtok profile (Inr resp) (err, a, r) w))
           = outbox w @ [AxiosGet (memberfulURL @ ''/api/graphql/member?query='' @ memberQuery)
                                  [(''Authorization'', ''Bearer '' @ atok)],
                         RequestNewAccessToken strategy_name (JStr rtok)]
       \<and> snd (handleSuccessfulOAuthFlow atok rtok profile (Inr resp) (err, a, r) w)
           = Returned (Callback JNull (data resp))"
  using assms
  by (simp add: refresh_callback_error refreshTheToken_callback_error flow_fulfilled
      send_out_def console_log_def)

theorem failed_refresh_only_logs_witness:
  "invalid_grant \<noteq> JNull
   \<and> refresh_callback (invalid_grant, JUndefined, JUndefined) initial_world
       = initial_world\<lparr>console := console initial_world @ [[JStr ''Error refreshing token: '', invalid_grant]]\<rparr>
   \<and> refreshTheToken_callback (invalid_grant, JUndefined, JUndefined) initial_world
       = initial_world\<lparr>console := console initial_world @ [[JStr ''Error refreshing token: '', invalid_grant]]\<rparr>
   \<and> stored_refresh_token (fst (handleSuccessfulOAuthFlow ''AT1'' ''RT1'' (JObj [])
         (Inr (ok_response example_body)) (invalid_grant, JUndefined, JUndefined) initial_world))
       = JStr ''RT1''
   \<and> outbox (fst (handleSuccessfulOAuthFlow ''AT1'' ''RT1'' (JObj [])
         (Inr (ok_response example_body)) (invalid_grant, JUndefined, JUndefined) initial_world))
       = outbox initial_world @
           [AxiosGet (memberfulURL @ ''/api/graphql/member?query='' @ memberQuery)
                     [(''Authorization'', ''Bearer '' @ ''AT1'')],
            RequestNewAccessToken strategy_name (JStr ''RT1'')]
   \<and> snd (handleSuccessfulOAuthFlow ''AT1'' ''RT1'' (JObj [])
         (Inr (ok_response example_body)) (invalid_grant, JUndefined, JUndefined) initial_world)
       = Returned (Callback JNull (data (ok_response example_body)))"
proof -
  have h: "invalid_grant \<noteq> JNull"
    by (simp add: invalid_grant_def)
  show ?thesis
    using h failed_refresh_only_logs[OF h, of JUndefined JUndefined initial_world
        "''AT1''" "''RT1''" "JObj []" "ok_response example_body"]
    by simp
qed

section \<open>One refresh token for the whole process\<close>

text \<open>
  C6, as stated: no flow reads or overwrites the refresh token of another session. Session
  A's sign-in stores \<open>RT_A\<close> and awaits its profile request; session B's sign-in starts
  and stores \<open>RT_B\<close>; when A's response arrives, A's flow requests its refresh with
  \<open>RT_B\<close>.
\<close>

theorem shared_refresh_token_counterexample:
  "stored_refresh_token
     (handleSuccessfulOAuthFlow_begin ''AT_B'' ''RT_B'' (JObj [])
        (handleSuccessfulOAuthFlow_begin ''AT_A'' ''RT_A'' (JObj []) initial_world)) = JStr ''RT_B''
   \<and> last (outbox (fst (handleSuccessfulOAuthFlow_resume (Inr (ok_response example_body))
        (handleSuccessfulOAuthFlow_begin ''AT_B'' ''RT_B'' (JObj [])
           (handleSuccessfulOAuthFlow_begin ''AT_A'' ''RT_A'' (JObj []) initial_world)))))
       = RequestNewAccessToken ''oauth2'' (JStr ''RT_B'')"
  by (simp add: handleSuccessfulOAuthFlow_resume_def Let_def send_out_def console_log_def
      strategy_name_def)

text \<open>
  C6, amended: the latest refresh token is held in one variable of the process, shared by
  all sessions: every sign-in overwrites it, and every refresh request (of either variant
  of the program) carries its current value; a flow that runs with no other sign-in in
  between sends its own refresh token.
\<close>

theorem refresh_token_is_process_wide:
  "stored_refresh_token (handleSuccessfulOAuthFlow_begin atok rtok profile w) = JStr rtok
   \<and> outbox (fst (handleSuccessfulOAuthFlow_resume (Inr resp) w))
       = outbox w @ [RequestNewAccessToken strategy_name (stored_refresh_token w)]
   \<and> outbox (refreshTheToken w)
       = outbox w @ [RequestNewAccessToken strategy_name (stored_refresh_token w)]
   \<and> last (outbox (fst (handleSuccessfulOAuthFlow atok rtok profile (Inr resp) refreshed w)))
       = RequestNewAccessToken strategy_name (JStr rtok)"
  by (simp add: handleSuccessfulOAuthFlow_resume_def refreshTheToken_def flow_fulfilled
      Let_def send_out_def console_log_def)

section \<open>The access token and its expiry\<close>

text \<open>
  C7, as stated: the access token is used for a resource request only before its expiry.
  A token response with \<open>expires_in = 0\<close> is expired from the moment it is issued; the
  verify function sends the profile request with its access token all the same, and
  reports the body when the request is fulfilled.
\<close>

theorem expired_token_used_counterexample:
  "outbox (fst (exchange_succeeded
       \<lparr>access_token = ''AT1'', refresh_token = ''RT1'', expires_in = 0\<rparr>
       (JObj []) (Inr (ok_response example_body)) (JNull, JStr ''AT2'', JStr ''RT1'') initial_world))
     = [AxiosGet (memberfulURL @ ''/api/graphql/member?query='' @ memberQuery)
                 [(''Authorization'', ''Bearer AT1'')],
        RequestNewAccessToken ''oauth2'' (JStr ''RT1'')]
   \<and> snd (exchange_succeeded
       \<lparr>access_token = ''AT1'', refresh_token = ''RT1'', expires_in = 0\<rparr>
       (JObj []) (Inr (ok_response example_body)) (JNull, JStr ''AT2'', JStr ''RT1'') initial_world)
     = Returned (Callback JNull example_body)"
  by (simp add: exchange_succeeded_def flow_fulfilled send_out_def console_log_def
      ok_response_def initial_world_def strategy_name_def)

text \<open>
  C7, amended: whatever \<open>expires_in\<close> is, the verify function uses the access token
  for exactly one resource request, sent in the first part of its body without any check
  against an expiry; the second part sends
  no resource request, whether the first was fulfilled or rejected (there is no retry),
  and after a rejected one it sends nothing at all, so no refresh is requested. (What the
  verify function reports after a rejected request, \<open>flow_rejected\<close>, is not part of
  this statement.)
\<close>

theorem access_token_used_once_unchecked:
  "filter is_resource_request
      (outbox (handleSuccessfulOAuthFlow_begin (access_token t) (refresh_token t) profile w))
     = filter is_resource_request (outbox w) @
       [AxiosGet (memberfulURL @ ''/api/graphql/member?query='' @ memberQuery)
                 [(''Authorization'', ''Bearer '' @ access_token t)]]
   \<and> filter is_resource_request (outbox (fst (handleSuccessfulOAuthFlow_resume r w')))
     = filter is_resource_request (outbox w')
   \<and> outbox (fst (handleSuccessfulOAuthFlow_resume (Inl error) w')) = outbox w'
   \<and> filter is_resource_request
        (outbox (fst (exchange_succeeded (t\<lparr>expires_in := e\<rparr>) profile r refreshed w)))
     = filter is_resource_request (outbox w) @
       [AxiosGet (memberfulURL @ ''/api/graphql/member?query='' @ memberQuery)
                 [(''Authorization'', ''Bearer '' @ access_token t)]]"
proof (intro conjI)
  show "filter is_resource_request (outbox (fst (handleSuccessfulOAuthFlow_resume r w')))
     = filter is_resource_request (outbox w')"
    by (cases r) (simp_all add: resume_fulfilled resume_rejected)
  show "filter is_resource_request
        (outbox (fst (exchange_succeeded (t\<lparr>expires_in := e\<rparr>) profile r refreshed w)))
     = filter is_resource_request (outbox w) @
       [AxiosGet (memberfulURL @ ''/api/graphql/member?query='' @ memberQuery)
                 [(''Authorization'', ''Bearer '' @ access_token t)]]"
    by (cases r)
       (simp_all add: exchange_succeeded_def flow_fulfilled flow_rejected send_out_def
          console_log_def)
qed (simp_all add: resume_rejected)

section \<open>The profile request and its result\<close>

text \<open>
  C8: whatever the tokens, the verify function issues one GET to
  \<open>memberfulURL/api/graphql/member\<close> with the single header
  \<open>Authorization: Bearer <access token>\<close>; the value of its parameter \<open>query\<close> is
  \<open>memberQuery\<close>, whose words are exactly the selection
  \<open>{ currentMember { id email fullName subscriptions { active expiresAt plan { id name } } } }\<close>
  of the specification's field set.
\<close>

theorem profile_request_bearer_and_field_set:
  "outbox (handleSuccessfulOAuthFlow_begin atok rtok profile w) =
     outbox w @ [AxiosGet (memberfulURL @ ''/api/graphql/member?query='' @ memberQuery)
                          [(''Authorization'', ''Bearer '' @ atok)]]
   \<and> query_param (memberfulURL @ ''/api/graphql/member?query='' @ memberQuery) = Some memberQuery
   \<and> words_of memberQuery = document_tokens [Field ''currentMember'' spec_field_set]"
proof (intro conjI)
  show "outbox (handleSuccessfulOAuthFlow_begin atok rtok profile w) =
     outbox w @ [AxiosGet (memberfulURL @ ''/api/graphql/member?query='' @ memberQuery)
                          [(''Authorization'', ''Bearer '' @ atok)]]"
    by simp
  show "query_param (memberfulURL @ ''/api/graphql/member?query='' @ memberQuery) = Some memberQuery"
    by (simp add: memberfulURL_def)
  show "words_of memberQuery = document_tokens [Field ''currentMember'' spec_field_set]"
    by (simp add: words_of_def memberQuery_def document_tokens_def spec_field_set_def nl_def)
qed

text \<open>
  C9, as stated: the fields of every successfully fetched profile are the requested
  ones. The body of a 2xx response is handed on as it is: one that carries only
  \<open>id\<close> and \<open>email\<close> becomes the user, without \<open>fullName\<close> and \<open>subscriptions\<close>.
\<close>

theorem profile_fields_counterexample:
  "snd (handleSuccessfulOAuthFlow ''AT1'' ''RT1'' (JObj []) (Inr (ok_response partial_body))
          (JNull, JStr ''AT2'', JStr ''RT1'') initial_world) = Returned (Callback JNull partial_body)
   \<and> set (present_fields partial_body) \<noteq> set requested_fields"
proof -
  have a: "''fullName'' \<in> set requested_fields"
    by (simp add: requested_fields_def spec_field_set_def)
  have b: "''fullName'' \<notin> set (present_fields partial_body)"
    by (simp add: partial_body_def present_fields_def)
  have c: "set (present_fields partial_body) \<noteq> set requested_fields"
    using a b by blast
  show ?thesis
    using c by (simp add: flow_fulfilled ok_response_def)
qed

text \<open>
  C9, amended: whatever the body of a fulfilled profile request is, the verify function
  hands it to its callback unchanged, in the second part of its body and so in every run;
  apart from that it only writes the body to the console (the refresh request and the
  stored token do not depend on it). Nothing checks the body against the requested field
  set: the fields of the user are those of the body.
\<close>

theorem profile_passed_through:
  "snd (handleSuccessfulOAuthFlow_resume (Inr resp) w') = Returned (Callback JNull (data resp))
   \<and> console (fst (handleSuccessfulOAuthFlow_resume (Inr resp) w'))
       = console w' @ [[JStr ''Received a response from the API'', data resp]]
   \<and> outbox (fst (handleSuccessfulOAuthFlow_resume (Inr resp) w'))
       = outbox w' @ [RequestNewAccessToken strategy_name (stored_refresh_token w')]
   \<and> stored_refresh_token (fst (handleSuccessfulOAuthFlow_resume (Inr resp) w'))
       = stored_refresh_token w'
   \<and> snd (handleSuccessfulOAuthFlow atok rtok profile (Inr resp) refreshed w)
       = Returned (Callback JNull (data resp))
   \<and> reported_user (snd (handleSuccessfulOAuthFlow atok rtok profile (Inr resp) refreshed w))
       = Some (data resp)
   \<and> map_option present_fields
        (reported_user (snd (handleSuccessfulOAuthFlow atok rtok profile (Inr resp) refreshed w)))
       = Some (present_fields (data resp))"
  by (simp add: resume_fulfilled flow_fulfilled)

section \<open>The session hooks are the identity\<close>

text \<open>
  C10: for a user that is neither \<open>null\<close> nor \<open>undefined\<close>, \<open>serializeUser\<close> hands
  the user itself to its callback (not the subset \<open>myUser\<close> it builds),
  \<open>deserializeUser\<close> hands back what it is given, and the user that a successful
  run of the verify function reports is the whole response body.
\<close>

theorem serialize_deserialize_identity:
  assumes "user \<noteq> JNull" and "user \<noteq> JUndefined"
  shows "snd (serializeUser user w1) = Returned (Callback JNull user)
       \<and> snd (deserializeUser user w2) = Returned (Callback JNull user)
       \<and> snd (handleSuccessfulOAuthFlow atok rtok profile
                (Inr (ok_response user)) refreshed w0) = Returned (Callback JNull user)"
  using snd_serializeUser[OF assms]
  by (simp add: deserializeUser_def flow_fulfilled ok_response_def)

theorem serialize_deserialize_identity_witness:
  "example_body \<noteq> JNull \<and> example_body \<noteq> JUndefined
   \<and> snd (serializeUser example_body initial_world) = Returned (Callback JNull example_body)
   \<and> snd (deserializeUser example_body initial_world) = Returned (Callback JNull example_body)
   \<and> snd (handleSuccessfulOAuthFlow ''AT1'' ''RT1'' (JObj [])
            (Inr (ok_response example_body)) (JNull, JStr ''AT2'', JStr ''RT1'') initial_world)
       = Returned (Callback JNull example_body)"
proof -
  have a: "example_body \<noteq> JNull" and b: "example_body \<noteq> JUndefined"
    by (simp_all add: example_body_def)
  show ?thesis
    using a b serialize_deserialize_identity[OF a b, of initial_world initial_world
        "''AT1''" "''RT1''" "JObj []" "(JNull, JStr ''AT2'', JStr ''RT1'')" initial_world]
    by simp
qed

end
